theory Spec2Isabelle
  imports Main "HOL-Library.Multiset"
begin

section \<open>Time\<close>

text \<open>
  A point in time is a number of seconds on the clock of the project's time zone.
  The value of \<^verbatim>\<open>now()\<close> is passed to every handler that reads it.
  The ORM transform \<^verbatim>\<open>__date\<close> truncates a time stamp to its calendar day; a
  \<^verbatim>\<open>datetime\<close> given as the right-hand side of a lookup on that transform is
  converted by \<^verbatim>\<open>DateField.to_python\<close> to its calendar day as well.
\<close>

type_synonym datetime = int

definition date_of :: "datetime \<Rightarrow> int" where
  "date_of t = t div 86400"

section \<open>Data model\<close>

text \<open>
  Modelled from the spec: the model classes \<^verbatim>\<open>User\<close>, \<^verbatim>\<open>Category\<close>,
  \<^verbatim>\<open>Post\<close> and \<^verbatim>\<open>Comment\<close> of \<^verbatim>\<open>blog/models.py\<close>, which is not among
  the sources. The attributes are those of the spec's data model; a foreign key is
  stored as the id of the row it refers to. The foreign key from a comment to its post is
  \<open>cm_post\<close>: it is the attribute that \<^verbatim>\<open>CreateCommentView.form_valid\<close> assigns
  (under the name \<^verbatim>\<open>comments\<close>) and whose reverse accessor on a post is
  \<^verbatim>\<open>comments\<close>.
\<close>

record user =
  u_id :: nat
  u_username :: string
  u_first_name :: string
  u_last_name :: string
  u_email :: string

record category =
  c_id :: nat
  c_slug :: string
  c_title :: string
  c_is_published :: bool

record post =
  p_id :: nat
  p_title :: string
  p_text :: string
  p_pub_date :: datetime
  p_is_published :: bool
  p_author :: nat
  p_category :: nat
  p_location :: "nat option"

record comment =
  cm_id :: nat
  cm_text :: string
  cm_author :: nat
  cm_post :: nat
  cm_created_at :: datetime

text \<open>The data store: one list of rows per table.\<close>

record db =
  users :: "user list"
  categories :: "category list"
  posts :: "post list"
  comments :: "comment list"

text \<open>
  The constraints the store enforces: primary keys are unique in each table, and so are
  user names.
\<close>

definition wf_db :: "db \<Rightarrow> bool" where
  "wf_db d \<longleftrightarrow>
     distinct (map u_id (users d)) \<and> distinct (map u_username (users d)) \<and>
     distinct (map c_id (categories d)) \<and> distinct (map p_id (posts d)) \<and>
     distinct (map cm_id (comments d))"

section \<open>Requests and responses\<close>

datatype http_method = GET | POST

text \<open>The \<^verbatim>\<open>page\<close> parameter of the query string.\<close>

datatype page_param = NoPage | PageNumber int | PageLast | PageOther

type_synonym querydict = "string \<rightharpoonup> string"

text \<open>
  \<open>req_user\<close> is \<^verbatim>\<open>request.user\<close>: \<open>None\<close> is the anonymous user,
  \<open>Some u\<close> an authenticated one.
\<close>

record request =
  req_user :: "user option"
  req_method :: http_method
  req_page :: page_param
  req_POST :: querydict

text \<open>The routes of \<^verbatim>\<open>urls.py\<close>, and the login entry point with its return path.\<close>

datatype url =
    IndexUrl
  | PostDetailUrl nat
  | CategoryPostsUrl string
  | EditProfileUrl
  | ProfileUrl string
  | CreatePostUrl
  | EditPostUrl nat
  | DeletePostUrl nat
  | AddCommentUrl nat
  | EditCommentUrl nat nat
  | DeleteCommentUrl nat nat
  | LoginUrl url

datatype error = Http404 | MultipleObjectsReturned | NoReverseMatch

datatype view_context =
    ListContext "(post \<times> nat) list"
  | CategoryContext "(post \<times> nat) list" category
  | ProfileContext "(post \<times> nat) list" user
  | DetailContext post "comment list"
  | PostFormContext "post option" bool
  | PostDeleteContext post
  | CommentFormContext "comment option" bool
  | CommentDeleteContext comment
  | ProfileFormContext user bool

datatype response =
    TemplateResponse string view_context
  | HttpResponseRedirect url
  | HttpResponseNotFound
  | HttpResponseNotAllowed
  | HttpResponseServerError error

text \<open>An exception that leaves a view: \<^verbatim>\<open>Http404\<close> is the not-found page, any other a server error.\<close>

definition error_response :: "error \<Rightarrow> response" where
  "error_response e = (if e = Http404 then HttpResponseNotFound else HttpResponseServerError e)"

section \<open>Query sets\<close>

text \<open>
  \<^verbatim>\<open>get_object_or_404(rows, cond)\<close> is \<^verbatim>\<open>rows.get(cond)\<close>: no row raises
  \<^verbatim>\<open>Http404\<close>, more than one \<^verbatim>\<open>MultipleObjectsReturned\<close>.
\<close>

definition get_object_or_404 :: "'a list \<Rightarrow> ('a \<Rightarrow> bool) \<Rightarrow> error + 'a" where
  "get_object_or_404 rows cond =
     (case filter cond rows of
        [] \<Rightarrow> Inl Http404
      | [x] \<Rightarrow> Inr x
      | _ \<Rightarrow> Inl MultipleObjectsReturned)"

text \<open>The lookup \<^verbatim>\<open>category__is_published=True\<close> joins the post with its category.\<close>

definition category__is_published :: "db \<Rightarrow> post \<Rightarrow> bool" where
  "category__is_published d p =
     list_ex (\<lambda>c. c_id c = p_category p \<and> c_is_published c) (categories d)"

definition category__slug :: "db \<Rightarrow> string \<Rightarrow> post \<Rightarrow> bool" where
  "category__slug d s p =
     list_ex (\<lambda>c. c_id c = p_category p \<and> c_slug c = s) (categories d)"

text \<open>
  \<^verbatim>\<open>functions.get_post\<close>. \<^verbatim>\<open>select_related\<close> only fetches the related rows with
  the post. The lookup \<^verbatim>\<open>pub_date__date__lt=now()\<close> compares calendar days.
\<close>

definition get_post :: "datetime \<Rightarrow> db \<Rightarrow> post list \<Rightarrow> post list" where
  "get_post now d ps =
     filter (\<lambda>p. p_is_published p \<and> category__is_published d p \<and>
                 date_of (p_pub_date p) < date_of now) ps"

text \<open>\<^verbatim>\<open>annotate(comment_count=Count('comments'))\<close>.\<close>

definition comment_count :: "db \<Rightarrow> post \<Rightarrow> nat" where
  "comment_count d p = length (filter (\<lambda>c. cm_post c = p_id p) (comments d))"

definition annotate_comment_count :: "db \<Rightarrow> post list \<Rightarrow> (post \<times> nat) list" where
  "annotate_comment_count d ps = map (\<lambda>p. (p, comment_count d p)) ps"

text \<open>\<^verbatim>\<open>order_by('-pub_date')\<close>; rows of equal date keep their order.\<close>

definition order_by_pub_date_desc :: "(post \<times> nat) list \<Rightarrow> (post \<times> nat) list" where
  "order_by_pub_date_desc rows = sort_key (\<lambda>r. - p_pub_date (fst r)) rows"

section \<open>Pagination\<close>

text \<open>
  \<^verbatim>\<open>MultipleObjectMixin.paginate_queryset\<close> with \<^verbatim>\<open>paginate_by = 10\<close>, no
  orphans and an empty first page allowed: a missing page parameter is page 1,
  \<^verbatim>\<open>last\<close> the last page, and a page that is no number or out of range raises
  \<^verbatim>\<open>Http404\<close>.
\<close>

definition paginate_by :: nat where
  "paginate_by = 10"

definition num_pages :: "'a list \<Rightarrow> nat" where
  "num_pages rows = (max 1 (length rows) + (paginate_by - 1)) div paginate_by"

definition page :: "'a list \<Rightarrow> nat \<Rightarrow> 'a list" where
  "page rows n = take paginate_by (drop ((n - 1) * paginate_by) rows)"

definition paginate_queryset :: "'a list \<Rightarrow> page_param \<Rightarrow> error + 'a list" where
  "paginate_queryset rows pp =
     (case pp of
        NoPage \<Rightarrow> Inr (page rows 1)
      | PageLast \<Rightarrow> Inr (page rows (num_pages rows))
      | PageOther \<Rightarrow> Inl Http404
      | PageNumber n \<Rightarrow>
          if n < 1 \<or> int (num_pages rows) < n then Inl Http404
          else Inr (page rows (nat n)))"

section \<open>The listing views\<close>

text \<open>\<^verbatim>\<open>IndexListView\<close>: a \<^verbatim>\<open>ListView\<close> answers only \<^verbatim>\<open>GET\<close>.\<close>

definition IndexListView_get_queryset :: "datetime \<Rightarrow> db \<Rightarrow> (post \<times> nat) list" where
  "IndexListView_get_queryset now d =
     order_by_pub_date_desc (annotate_comment_count d (get_post now d (posts d)))"

definition IndexListView :: "datetime \<Rightarrow> db \<Rightarrow> request \<Rightarrow> response" where
  "IndexListView now d r =
     (if req_method r \<noteq> GET then HttpResponseNotAllowed
      else case paginate_queryset (IndexListView_get_queryset now d) (req_page r) of
             Inl e \<Rightarrow> error_response e
           | Inr rows \<Rightarrow> TemplateResponse ''blog/index.html'' (ListContext rows))"

text \<open>
  \<^verbatim>\<open>CategoryPostsView\<close>: the page of the query set is computed first, the published
  category of that slug is fetched after it.
\<close>

definition CategoryPostsView_get_queryset ::
  "datetime \<Rightarrow> db \<Rightarrow> string \<Rightarrow> (post \<times> nat) list" where
  "CategoryPostsView_get_queryset now d category_slug =
     order_by_pub_date_desc (annotate_comment_count d
       (filter (category__slug d category_slug) (get_post now d (posts d))))"

definition CategoryPostsView :: "datetime \<Rightarrow> db \<Rightarrow> request \<Rightarrow> string \<Rightarrow> response" where
  "CategoryPostsView now d r category_slug =
     (if req_method r \<noteq> GET then HttpResponseNotAllowed
      else case paginate_queryset (CategoryPostsView_get_queryset now d category_slug) (req_page r) of
             Inl e \<Rightarrow> error_response e
           | Inr rows \<Rightarrow>
               (case get_object_or_404 (categories d)
                       (\<lambda>c. c_is_published c \<and> c_slug c = category_slug) of
                  Inl e \<Rightarrow> error_response e
                | Inr c \<Rightarrow> TemplateResponse ''blog/category.html'' (CategoryContext rows c)))"



section \<open>Login and ownership\<close>

text \<open>
  \<^verbatim>\<open>LoginRequiredMixin\<close> sends an anonymous request to the login entry point, with the
  path of the request as the return path.
\<close>

definition redirect_to_login :: "url \<Rightarrow> response" where
  "redirect_to_login path = HttpResponseRedirect (LoginUrl path)"

text \<open>
  \<^verbatim>\<open>obj.author == request.user\<close>: model instances are equal when their primary keys
  are; the anonymous user equals no row.
\<close>

definition is_author :: "nat \<Rightarrow> user option \<Rightarrow> bool" where
  "is_author author_id u = (case u of None \<Rightarrow> False | Some x \<Rightarrow> u_id x = author_id)"

section \<open>The detail view\<close>

definition PostDetailView_get_object :: "datetime \<Rightarrow> db \<Rightarrow> request \<Rightarrow> nat \<Rightarrow> error + post" where
  "PostDetailView_get_object now d r post_id =
     (case get_object_or_404 (posts d) (\<lambda>p. p_id p = post_id) of
        Inl e \<Rightarrow> Inl e
      | Inr post \<Rightarrow>
          if is_author (p_author post) (req_user r) then Inr post
          else get_object_or_404
                 (filter (\<lambda>p. p_is_published p \<and> p_pub_date p \<le> now \<and>
                              category__is_published d p) (posts d))
                 (\<lambda>p. p_id p = post_id))"

text \<open>
  \<^verbatim>\<open>PostDetailView\<close>: the login check of \<^verbatim>\<open>LoginRequiredMixin.dispatch\<close> runs
  first. \<^verbatim>\<open>get_context_data\<close> calls \<^verbatim>\<open>get_object\<close> a second time, with the same
  result, and lists the comments of that post.
\<close>

definition PostDetailView :: "datetime \<Rightarrow> db \<Rightarrow> request \<Rightarrow> nat \<Rightarrow> response" where
  "PostDetailView now d r post_id =
     (if req_user r = None then redirect_to_login (PostDetailUrl post_id)
      else if req_method r \<noteq> GET then HttpResponseNotAllowed
      else case PostDetailView_get_object now d r post_id of
             Inl e \<Rightarrow> error_response e
           | Inr obj \<Rightarrow>
               TemplateResponse ''blog/detail.html''
                 (DetailContext obj (filter (\<lambda>c. cm_post c = p_id obj) (comments d))))"

section \<open>Forms\<close>

text \<open>
  Modelled from the spec: the editable fields of the \<^verbatim>\<open>Post\<close> model, declared in
  \<^verbatim>\<open>blog/models.py\<close>, which is not among the sources.
\<close>

definition Post_fields :: "string list" where
  "Post_fields =
     [''title'', ''text'', ''pub_date'', ''is_published'', ''author'', ''category'', ''location'']"

text \<open>\<^verbatim>\<open>forms.py\<close>: the fields each model form reads from the submitted data.\<close>

definition PostForm_exclude :: "string list" where
  "PostForm_exclude = [''author'']"

definition PostForm_fields :: "string list" where
  "PostForm_fields = filter (\<lambda>f. f \<notin> set PostForm_exclude) Post_fields"

definition CommentForm_fields :: "string list" where
  "CommentForm_fields = [''text'']"

definition EditProfileForm_fields :: "string list" where
  "EditProfileForm_fields = [''username'', ''first_name'', ''last_name'', ''email'']"

text \<open>The cleaned values of a valid post form and of a valid profile form.\<close>

record post_values =
  v_title :: string
  v_text :: string
  v_pub_date :: datetime
  v_is_published :: bool
  v_category :: nat
  v_location :: "nat option"

record profile_values =
  v_username :: string
  v_first_name :: string
  v_last_name :: string
  v_email :: string

text \<open>
  What the views take from \<^verbatim>\<open>blog/models.py\<close>: the validation of the submitted
  values of each form (\<open>None\<close> when the form is invalid), and what deleting a post
  does to the comments table (the \<^verbatim>\<open>on_delete\<close> of the foreign key). They are
  parameters of the handlers.
\<close>

record models =
  clean_post :: "db \<Rightarrow> querydict \<Rightarrow> post_values option"
  clean_comment :: "querydict \<Rightarrow> string option"
  clean_profile :: "db \<Rightarrow> user \<Rightarrow> querydict \<Rightarrow> profile_values option"
  post_on_delete :: "nat \<Rightarrow> comment list \<Rightarrow> comment list"

text \<open>A form reads the submitted data at its own fields only.\<close>

definition PostForm :: "models \<Rightarrow> db \<Rightarrow> querydict \<Rightarrow> post_values option" where
  "PostForm m d data = clean_post m d (data |` set PostForm_fields)"

definition CommentForm :: "models \<Rightarrow> querydict \<Rightarrow> string option" where
  "CommentForm m data = clean_comment m (data |` set CommentForm_fields)"

definition EditProfileForm :: "models \<Rightarrow> db \<Rightarrow> user \<Rightarrow> querydict \<Rightarrow> profile_values option" where
  "EditProfileForm m d u data = clean_profile m d u (data |` set EditProfileForm_fields)"

text \<open>Saving a valid post form writes the form's fields to the instance.\<close>

definition construct_post :: "post_values \<Rightarrow> post \<Rightarrow> post" where
  "construct_post v p =
     p\<lparr>p_title := v_title v, p_text := v_text v, p_pub_date := v_pub_date v,
       p_is_published := v_is_published v, p_category := v_category v,
       p_location := v_location v\<rparr>"

definition construct_user :: "profile_values \<Rightarrow> user \<Rightarrow> user" where
  "construct_user v u =
     u\<lparr>u_username := v_username v, u_first_name := v_first_name v,
       u_last_name := v_last_name v, u_email := v_email v\<rparr>"

text \<open>The primary key the store gives a new row.\<close>

definition next_id :: "nat list \<Rightarrow> nat" where
  "next_id ids = Suc (foldr max ids 0)"

section \<open>Reversing URLs\<close>

text \<open>
  \<^verbatim>\<open>reverse('blog:profile', kwargs={'username': request.user})\<close>: the route takes a
  slug, so a user name that is not one has no URL and \<^verbatim>\<open>NoReverseMatch\<close> is raised.
\<close>

definition slug_chars :: string where
  "slug_chars = ''abcdefghijklmnopqrstuvwxyzABCDEFGHIJKLMNOPQRSTUVWXYZ0123456789-_''"


definition reverse_profile :: "string \<Rightarrow> error + url" where
  "reverse_profile username =
     (if username \<noteq> [] \<and> list_all (\<lambda>c. c \<in> set slug_chars) username
      then Inr (ProfileUrl username) else Inl NoReverseMatch)"

section \<open>The post views\<close>

text \<open>
  \<^verbatim>\<open>PostCreateView\<close>: \<^verbatim>\<open>form_valid\<close> sets the author of the new instance to
  \<^verbatim>\<open>request.user\<close>, the instance is saved, and the success URL is reversed after it.
\<close>

definition PostCreateView :: "models \<Rightarrow> db \<Rightarrow> request \<Rightarrow> response \<times> db" where
  "PostCreateView m d r =
     (case req_user r of
        None \<Rightarrow> (redirect_to_login CreatePostUrl, d)
      | Some u \<Rightarrow>
          (case req_method r of
             GET \<Rightarrow> (TemplateResponse ''blog/create.html'' (PostFormContext None False), d)
           | POST \<Rightarrow>
               (case PostForm m d (req_POST r) of
                  None \<Rightarrow> (TemplateResponse ''blog/create.html'' (PostFormContext None True), d)
                | Some v \<Rightarrow>
                    let obj = \<lparr>p_id = next_id (map p_id (posts d)), p_title = v_title v,
                               p_text = v_text v, p_pub_date = v_pub_date v,
                               p_is_published = v_is_published v, p_author = u_id u,
                               p_category = v_category v, p_location = v_location v\<rparr>;
                        d' = d\<lparr>posts := posts d @ [obj]\<rparr>
                    in (case reverse_profile (u_username u) of
                          Inl e \<Rightarrow> (error_response e, d')
                        | Inr success_url \<Rightarrow> (HttpResponseRedirect success_url, d')))))"

text \<open>
  \<^verbatim>\<open>PostEditView\<close>: its own \<^verbatim>\<open>dispatch\<close> fetches the post and compares the author
  before \<^verbatim>\<open>LoginRequiredMixin.dispatch\<close> is reached through \<^verbatim>\<open>super()\<close>.
\<close>

definition PostEditView :: "models \<Rightarrow> db \<Rightarrow> request \<Rightarrow> nat \<Rightarrow> response \<times> db" where
  "PostEditView m d r post_id =
     (case get_object_or_404 (posts d) (\<lambda>p. p_id p = post_id) of
        Inl e \<Rightarrow> (error_response e, d)
      | Inr obj \<Rightarrow>
          if \<not> is_author (p_author obj) (req_user r)
          then (HttpResponseRedirect (PostDetailUrl post_id), d)
          else if req_user r = None then (redirect_to_login (EditPostUrl post_id), d)
          else (case req_method r of
                  GET \<Rightarrow>
                    (TemplateResponse ''blog/create.html'' (PostFormContext (Some obj) False), d)
                | POST \<Rightarrow>
                    (case PostForm m d (req_POST r) of
                       None \<Rightarrow>
                         (TemplateResponse ''blog/create.html''
                            (PostFormContext (Some obj) True), d)
                     | Some v \<Rightarrow>
                         (HttpResponseRedirect (PostDetailUrl post_id),
                          d\<lparr>posts := map (\<lambda>p. if p_id p = p_id obj then construct_post v obj
                                               else p) (posts d)\<rparr>))))"

text \<open>\<^verbatim>\<open>PostDeleteView\<close>: the same order of checks; a \<^verbatim>\<open>POST\<close> deletes the post.\<close>

definition PostDeleteView :: "models \<Rightarrow> db \<Rightarrow> request \<Rightarrow> nat \<Rightarrow> response \<times> db" where
  "PostDeleteView m d r post_id =
     (case get_object_or_404 (posts d) (\<lambda>p. p_id p = post_id) of
        Inl e \<Rightarrow> (error_response e, d)
      | Inr obj \<Rightarrow>
          if \<not> is_author (p_author obj) (req_user r)
          then (HttpResponseRedirect (PostDetailUrl post_id), d)
          else if req_user r = None then (redirect_to_login (DeletePostUrl post_id), d)
          else (case req_method r of
                  GET \<Rightarrow> (TemplateResponse ''blog/create.html'' (PostDeleteContext obj), d)
                | POST \<Rightarrow>
                    (HttpResponseRedirect IndexUrl,
                     d\<lparr>posts := filter (\<lambda>p. p_id p \<noteq> p_id obj) (posts d),
                       comments := post_on_delete m (p_id obj) (comments d)\<rparr>)))"

section \<open>The comment views\<close>

text \<open>
  \<^verbatim>\<open>CreateCommentView\<close>: its own \<^verbatim>\<open>dispatch\<close> fetches the post before the login
  check.
\<close>

definition CreateCommentView ::
  "models \<Rightarrow> datetime \<Rightarrow> db \<Rightarrow> request \<Rightarrow> nat \<Rightarrow> response \<times> db" where
  "CreateCommentView m now d r post_id =
     (case get_object_or_404 (posts d) (\<lambda>p. p_id p = post_id) of
        Inl e \<Rightarrow> (error_response e, d)
      | Inr post_obj \<Rightarrow>
          (case req_user r of
             None \<Rightarrow> (redirect_to_login (AddCommentUrl post_id), d)
           | Some u \<Rightarrow>
               (case req_method r of
                  GET \<Rightarrow>
                    (TemplateResponse ''blog/comment.html'' (CommentFormContext None False), d)
                | POST \<Rightarrow>
                    (case CommentForm m (req_POST r) of
                       None \<Rightarrow>
                         (TemplateResponse ''blog/comment.html''
                            (CommentFormContext None True), d)
                     | Some text \<Rightarrow>
                         (HttpResponseRedirect (PostDetailUrl post_id),
                          d\<lparr>comments := comments d @
                              [\<lparr>cm_id = next_id (map cm_id (comments d)), cm_text = text,
                                cm_author = u_id u, cm_post = p_id post_obj,
                                cm_created_at = now\<rparr>]\<rparr>)))))"

text \<open>
  \<^verbatim>\<open>CommentEditView\<close> and \<^verbatim>\<open>CommentDeleteView\<close>: the comment is fetched by
  \<^verbatim>\<open>comment_id\<close> alone, there is no login mixin, and both redirects are built from
  \<^verbatim>\<open>comment_id\<close>.
\<close>

definition CommentEditView :: "models \<Rightarrow> db \<Rightarrow> request \<Rightarrow> nat \<Rightarrow> nat \<Rightarrow> response \<times> db" where
  "CommentEditView m d r post_id comment_id =
     (case get_object_or_404 (comments d) (\<lambda>c. cm_id c = comment_id) of
        Inl e \<Rightarrow> (error_response e, d)
      | Inr obj \<Rightarrow>
          if \<not> is_author (cm_author obj) (req_user r)
          then (HttpResponseRedirect (PostDetailUrl comment_id), d)
          else (case req_method r of
                  GET \<Rightarrow>
                    (TemplateResponse ''blog/comment.html''
                       (CommentFormContext (Some obj) False), d)
                | POST \<Rightarrow>
                    (case CommentForm m (req_POST r) of
                       None \<Rightarrow>
                         (TemplateResponse ''blog/comment.html''
                            (CommentFormContext (Some obj) True), d)
                     | Some text \<Rightarrow>
                         (HttpResponseRedirect (PostDetailUrl comment_id),
                          d\<lparr>comments := map (\<lambda>c. if cm_id c = cm_id obj
                                                  then obj\<lparr>cm_text := text\<rparr> else c)
                                             (comments d)\<rparr>))))"

definition CommentDeleteView :: "db \<Rightarrow> request \<Rightarrow> nat \<Rightarrow> nat \<Rightarrow> response \<times> db" where
  "CommentDeleteView d r post_id comment_id =
     (case get_object_or_404 (comments d) (\<lambda>c. cm_id c = comment_id) of
        Inl e \<Rightarrow> (error_response e, d)
      | Inr obj \<Rightarrow>
          if \<not> is_author (cm_author obj) (req_user r)
          then (HttpResponseRedirect (PostDetailUrl comment_id), d)
          else (case req_method r of
                  GET \<Rightarrow> (TemplateResponse ''blog/comment.html'' (CommentDeleteContext obj), d)
                | POST \<Rightarrow>
                    (HttpResponseRedirect (PostDetailUrl comment_id),
                     d\<lparr>comments := filter (\<lambda>c. cm_id c \<noteq> cm_id obj) (comments d)\<rparr>)))"

section \<open>The profile form\<close>

text \<open>
  \<^verbatim>\<open>ProfileEditView\<close>: the edited object is \<^verbatim>\<open>request.user\<close>, and the success URL
  is reversed with its user name after the save.
\<close>

definition ProfileEditView :: "models \<Rightarrow> db \<Rightarrow> request \<Rightarrow> response \<times> db" where
  "ProfileEditView m d r =
     (case req_user r of
        None \<Rightarrow> (redirect_to_login EditProfileUrl, d)
      | Some u \<Rightarrow>
          (case req_method r of
             GET \<Rightarrow> (TemplateResponse ''blog/user.html'' (ProfileFormContext u False), d)
           | POST \<Rightarrow>
               (case EditProfileForm m d u (req_POST r) of
                  None \<Rightarrow> (TemplateResponse ''blog/user.html'' (ProfileFormContext u True), d)
                | Some v \<Rightarrow>
                    let u' = construct_user v u;
                        d' = d\<lparr>users := map (\<lambda>x. if u_id x = u_id u then u' else x) (users d)\<rparr>
                    in (case reverse_profile (u_username u') of
                          Inl e \<Rightarrow> (error_response e, d')
                        | Inr success_url \<Rightarrow> (HttpResponseRedirect success_url, d')))))"

section \<open>The routes below \<^verbatim>\<open>profile/\<close>\<close>


section \<open>The visibility rule of the specification\<close>

text \<open>
  The spec's words: a post is publicly visible iff \<^verbatim>\<open>is_published\<close> is true, its
  \<^verbatim>\<open>pub_date\<close> is at most the current time, and its category's \<^verbatim>\<open>is_published\<close>
  is true.
\<close>

definition spec_publicly_visible :: "datetime \<Rightarrow> db \<Rightarrow> post \<Rightarrow> bool" where
  "spec_publicly_visible now d p \<longleftrightarrow>
     p_is_published p \<and> p_pub_date p \<le> now \<and>
     list_ex (\<lambda>c. c_id c = p_category p \<and> c_is_published c) (categories d)"

section \<open>Sample data\<close>

text \<open>
  A small blog: two users, one published category, a post of Alice's published earlier on
  the day of the request, a second post of hers that is unpublished and dated in the
  future, and a comment of Bob's whose id differs from the id of its post.
\<close>

definition alice :: user where
  "alice = \<lparr>u_id = 1, u_username = ''alice'', u_first_name = ''Alice'', u_last_name = ''A'',
            u_email = ''alice@example.org''\<rparr>"

definition bob :: user where
  "bob = \<lparr>u_id = 2, u_username = ''bob'', u_first_name = ''Bob'', u_last_name = ''B'',
          u_email = ''bob@example.org''\<rparr>"

definition news :: category where
  "news = \<lparr>c_id = 1, c_slug = ''news'', c_title = ''News'', c_is_published = True\<rparr>"

definition today_post :: post where
  "today_post = \<lparr>p_id = 1, p_title = ''Today'', p_text = ''published this morning'',
                  p_pub_date = 864000 + 3600, p_is_published = True, p_author = 1,
                  p_category = 1, p_location = None\<rparr>"

definition draft_post :: post where
  "draft_post = \<lparr>p_id = 2, p_title = ''Draft'', p_text = ''not published'',
                  p_pub_date = 1728000, p_is_published = False, p_author = 1,
                  p_category = 1, p_location = None\<rparr>"

definition bobs_comment :: comment where
  "bobs_comment = \<lparr>cm_id = 7, cm_text = ''nice'', cm_author = 2, cm_post = 1,
                    cm_created_at = 864000 + 5000\<rparr>"

definition blog_db :: db where
  "blog_db = \<lparr>users = [alice, bob], categories = [news], posts = [today_post, draft_post],
              comments = [bobs_comment]\<rparr>"

text \<open>
  A second store, with two more users: one whose user name is \<^verbatim>\<open>edit\<close> and one whose
  user name has a dot in it, each with a published post.
\<close>

definition edit_user :: user where
  "edit_user = \<lparr>u_id = 3, u_username = ''edit'', u_first_name = ''Ed'', u_last_name = ''It'',
                u_email = ''edit@example.org''\<rparr>"

definition dotted_user :: user where
  "dotted_user = \<lparr>u_id = 4, u_username = ''a.b'', u_first_name = ''A'', u_last_name = ''B'',
                  u_email = ''ab@example.org''\<rparr>"

definition edits_post :: post where
  "edits_post = \<lparr>p_id = 3, p_title = ''Edits'', p_text = ''by the user named edit'',
                  p_pub_date = 432000, p_is_published = True, p_author = 3,
                  p_category = 1, p_location = None\<rparr>"

definition dotted_post :: post where
  "dotted_post = \<lparr>p_id = 4, p_title = ''Dots'', p_text = ''by the user named a.b'',
                   p_pub_date = 432000, p_is_published = True, p_author = 4,
                   p_category = 1, p_location = None\<rparr>"

definition names_db :: db where
  "names_db = \<lparr>users = [alice, bob, edit_user, dotted_user], categories = [news],
               posts = [today_post, draft_post, edits_post, dotted_post],
               comments = [bobs_comment]\<rparr>"

definition request_time :: datetime where
  "request_time = 864000 + 7200"

definition get_request :: "user option \<Rightarrow> request" where
  "get_request u = \<lparr>req_user = u, req_method = GET, req_page = NoPage, req_POST = Map.empty\<rparr>"

definition post_request :: "user option \<Rightarrow> querydict \<Rightarrow> request" where
  "post_request u data = \<lparr>req_user = u, req_method = POST, req_page = NoPage, req_POST = data\<rparr>"

text \<open>
  Sample validation: a post needs a title, a comment a text that is not empty, a profile
  an e-mail address. The post validation would take the text of the post from an
  \<^verbatim>\<open>author\<close> entry of the data it is given, if there were one.
\<close>

definition sample_models :: models where
  "sample_models =
     \<lparr>clean_post = (\<lambda>d data.
        case data ''title'' of
          None \<Rightarrow> None
        | Some t \<Rightarrow>
            Some \<lparr>v_title = t,
                  v_text = (case data ''author'' of None \<Rightarrow> ''by the requester'' | Some a \<Rightarrow> a),
                  v_pub_date = 864000, v_is_published = True, v_category = 1,
                  v_location = None\<rparr>),
      clean_comment = (\<lambda>data.
        case data ''text'' of None \<Rightarrow> None | Some t \<Rightarrow> if t = [] then None else Some t),
      clean_profile = (\<lambda>d u data.
        case data ''email'' of
          None \<Rightarrow> None
        | Some e \<Rightarrow>
            Some \<lparr>v_username = u_username u, v_first_name = u_first_name u,
                  v_last_name = u_last_name u, v_email = e\<rparr>),
      post_on_delete = (\<lambda>post_id cs. filter (\<lambda>c. cm_post c \<noteq> post_id) cs)\<rparr>"

lemmas sample_defs = alice_def bob_def news_def today_post_def draft_post_def bobs_comment_def
  blog_db_def request_time_def get_request_def post_request_def sample_models_def
  edit_user_def dotted_user_def edits_post_def dotted_post_def names_db_def

section \<open>Lemmas on lookups, dates and pages\<close>

text \<open>
  A lookup by a key that is unique in the table finds the row that has it, and every row
  that has the key is that row.
\<close>

lemma filter_key_unique:
  "distinct (map f rows) \<Longrightarrow> x \<in> set rows \<Longrightarrow> filter (\<lambda>y. f y = f x) rows = [x]"
proof (induction rows)
  case Nil
  then show ?case by simp
next
  case (Cons a rows)
  show ?case
  proof (cases "a = x")
    case True
    with Cons.prems have "\<forall>y \<in> set rows. f y \<noteq> f x" by (auto simp: image_iff)
    then have "filter (\<lambda>y. f y = f x) rows = []"
      by (simp add: filter_empty_conv)
    with True show ?thesis by simp
  next
    case False
    with Cons.prems have xin: "x \<in> set rows" by simp
    with Cons.prems have "f a \<noteq> f x" by (auto simp: image_iff)
    with Cons xin show ?thesis by simp
  qed
qed

lemma get_object_or_404_unique:
  "distinct (map f rows) \<Longrightarrow> x \<in> set rows \<Longrightarrow>
   get_object_or_404 rows (\<lambda>y. f y = f x) = Inr x"
  by (simp add: get_object_or_404_def filter_key_unique)

lemma get_object_or_404_none:
  "\<forall>y \<in> set rows. \<not> cond y \<Longrightarrow> get_object_or_404 rows cond = Inl Http404"
  by (simp add: get_object_or_404_def filter_empty_conv[THEN iffD2])

lemma key_unique:
  "distinct (map f rows) \<Longrightarrow> x \<in> set rows \<Longrightarrow> y \<in> set rows \<Longrightarrow> f y = f x \<Longrightarrow> y = x"
  by (simp add: distinct_map inj_on_def)

lemma hidden_post_lookup:
  assumes "distinct (map p_id (posts d))" and "P \<in> set (posts d)" and "\<not> vis P"
  shows "get_object_or_404 (filter vis (posts d)) (\<lambda>p. p_id p = p_id P) = Inl Http404"
proof (rule get_object_or_404_none)
  show "\<forall>y\<in>set (filter vis (posts d)). p_id y \<noteq> p_id P"
  proof
    fix y assume y: "y \<in> set (filter vis (posts d))"
    show "p_id y \<noteq> p_id P"
    proof
      assume "p_id y = p_id P"
      with assms(1,2) y have "y = P" by (auto dest: key_unique)
      with y assms(3) show False by simp
    qed
  qed
qed

lemma wf_blog_db: "wf_db blog_db"
  by (simp add: wf_db_def sample_defs)

text \<open>
  A calendar day that is strictly earlier means a time that is earlier.
\<close>

lemma date_of_less: "date_of a < date_of b \<Longrightarrow> a \<le> b"
proof -
  assume h: "date_of a < date_of b"
  show "a \<le> b"
  proof (rule ccontr)
    assume "\<not> a \<le> b"
    then have "b \<le> a" by simp
    then have "b div 86400 \<le> a div 86400" by (rule zdiv_mono1) simp
    with h show False by (simp add: date_of_def)
  qed
qed


text \<open>
  A new primary key is not in the table yet.
\<close>

lemma foldr_max_ge: "x \<in> set ids \<Longrightarrow> x \<le> foldr max ids (0::nat)"
  by (induction ids) (auto simp: max_def)

lemma next_id_fresh: "next_id ids \<notin> set ids"
proof
  assume "next_id ids \<in> set ids"
  then have "next_id ids \<le> foldr max ids 0" by (rule foldr_max_ge)
  then show False by (simp add: next_id_def)
qed

text \<open>
  The post form reads no \<^verbatim>\<open>author\<close> entry of the submitted data.
\<close>

lemma author_not_a_form_field: "''author'' \<notin> set PostForm_fields"
  by (simp add: PostForm_fields_def PostForm_exclude_def)

lemma PostForm_ignores_author: "PostForm m d (data(''author'' := a)) = PostForm m d data"
proof -
  have "data(''author'' := a) |` set PostForm_fields = data |` set PostForm_fields"
    using author_not_a_form_field by (auto simp: restrict_map_def fun_eq_iff)
  then show ?thesis by (simp add: PostForm_def)
qed

lemma anonymous_is_no_author: "req_user r = None \<Longrightarrow> \<not> is_author a (req_user r)"
  by (simp add: is_author_def)

section \<open>Visibility in the listings\<close>

text \<open>
  C1. The claim: the index and category listings include a post if and only if it is
  published, its \<^verbatim>\<open>pub_date\<close> is at most the current time and its category is
  published. The listings are built by \<^verbatim>\<open>get_post\<close>, whose date lookup compares
  calendar days strictly. On the sample blog, Alice's post was published at 01:00 on the
  day of the request, the request comes at 02:00, and the post satisfies the rule of the
  claim: the index and the listing of its category are empty, while the detail view, whose
  filter is \<^verbatim>\<open>pub_date__lte=now()\<close>, shows the post to Bob.
\<close>

theorem index_omits_post_published_today:
  "today_post \<in> set (posts blog_db) \<and>
   spec_publicly_visible request_time blog_db today_post \<and>
   IndexListView request_time blog_db (get_request None) =
     TemplateResponse ''blog/index.html'' (ListContext []) \<and>
   CategoryPostsView request_time blog_db (get_request None) ''news'' =
     TemplateResponse ''blog/category.html'' (CategoryContext [] news) \<and>
   PostDetailView request_time blog_db (get_request (Some bob)) 1 =
     TemplateResponse ''blog/detail.html'' (DetailContext today_post [bobs_comment])"
proof (intro conjI)
  show "today_post \<in> set (posts blog_db)"
    by (simp add: blog_db_def)
  show "spec_publicly_visible request_time blog_db today_post"
    by (simp add: spec_publicly_visible_def sample_defs)
  have none: "get_post request_time blog_db (posts blog_db) = []"
    by (simp add: get_post_def date_of_def sample_defs)
  show "IndexListView request_time blog_db (get_request None) =
     TemplateResponse ''blog/index.html'' (ListContext [])"
    by (simp add: IndexListView_def IndexListView_get_queryset_def none
        annotate_comment_count_def order_by_pub_date_desc_def paginate_queryset_def
        page_def get_request_def)
  have cat: "get_object_or_404 (categories blog_db)
      (\<lambda>c. c_is_published c \<and> c_slug c = ''news'') = Inr news"
    by (simp add: get_object_or_404_def blog_db_def news_def)
  show "CategoryPostsView request_time blog_db (get_request None) ''news'' =
     TemplateResponse ''blog/category.html'' (CategoryContext [] news)"
    by (simp add: CategoryPostsView_def CategoryPostsView_get_queryset_def none cat
        annotate_comment_count_def order_by_pub_date_desc_def paginate_queryset_def
        page_def get_request_def)
  show "PostDetailView request_time blog_db (get_request (Some bob)) 1 =
     TemplateResponse ''blog/detail.html'' (DetailContext today_post [bobs_comment])"
    by (simp add: PostDetailView_def PostDetailView_get_object_def is_author_def
        category__is_published_def get_object_or_404_def sample_defs)
qed

text \<open>
  What the listings do guarantee: every post of the index is a post of the store that
  satisfies the visibility rule.
\<close>

lemma index_lists_only_visible:
  "row \<in> set (IndexListView_get_queryset now d) \<Longrightarrow>
   fst row \<in> set (posts d) \<and> spec_publicly_visible now d (fst row)"
  by (auto simp: IndexListView_get_queryset_def order_by_pub_date_desc_def
      annotate_comment_count_def get_post_def spec_publicly_visible_def
      category__is_published_def dest: date_of_less)

section \<open>The detail route\<close>

text \<open>
  C2. The claim: for a post that fails the visibility rule, a requester who is anonymous
  or not the author gets the not-found response from the detail route. An anonymous
  requester is stopped by the login check before the post is looked up: on the sample blog
  the anonymous request for Alice's unpublished post is redirected to the login entry point.
\<close>

theorem detail_anonymous_counterexample:
  "draft_post \<in> set (posts blog_db) \<and> \<not> p_is_published draft_post \<and>
   \<not> spec_publicly_visible request_time blog_db draft_post \<and>
   req_user (get_request None) = None \<and>
   PostDetailView request_time blog_db (get_request None) (p_id draft_post) =
     HttpResponseRedirect (LoginUrl (PostDetailUrl 2)) \<and>
   PostDetailView request_time blog_db (get_request None) (p_id draft_post) \<noteq>
     HttpResponseNotFound"
  by (simp add: PostDetailView_def redirect_to_login_def spec_publicly_visible_def sample_defs)

text \<open>
  C2, amended. For a post of the store that fails the visibility rule and a \<^verbatim>\<open>GET\<close>
  request of someone who is not its author: an authenticated requester gets the not-found
  response, an anonymous one is redirected to the login entry point with the detail URL as
  the return path.
\<close>

theorem detail_hidden_post_not_author:
  assumes "wf_db d" and "P \<in> set (posts d)" and "\<not> spec_publicly_visible now d P"
    and "\<not> is_author (p_author P) (req_user r)" and "req_method r = GET"
  shows "PostDetailView now d r (p_id P) =
     (case req_user r of
        None \<Rightarrow> HttpResponseRedirect (LoginUrl (PostDetailUrl (p_id P)))
      | Some u \<Rightarrow> HttpResponseNotFound)"
proof (cases "req_user r")
  case None
  then show ?thesis by (simp add: PostDetailView_def redirect_to_login_def)
next
  case (Some u)
  from assms(1) have dist: "distinct (map p_id (posts d))" by (simp add: wf_db_def)
  have first: "get_object_or_404 (posts d) (\<lambda>p. p_id p = p_id P) = Inr P"
    using dist assms(2) by (rule get_object_or_404_unique)
  have second: "get_object_or_404
      (filter (\<lambda>p. p_is_published p \<and> p_pub_date p \<le> now \<and> category__is_published d p) (posts d))
      (\<lambda>p. p_id p = p_id P) = Inl Http404"
    using dist assms(2)
  proof (rule hidden_post_lookup)
    show "\<not> (p_is_published P \<and> p_pub_date P \<le> now \<and> category__is_published d P)"
      using assms(3) by (simp add: spec_publicly_visible_def category__is_published_def)
  qed
  have "PostDetailView_get_object now d r (p_id P) = Inl Http404"
    using assms(4) by (simp add: PostDetailView_get_object_def first second)
  with Some assms(5) show ?thesis
    by (simp add: PostDetailView_def error_response_def)
qed

theorem detail_hidden_post_not_author_witness:
  "wf_db blog_db \<and> draft_post \<in> set (posts blog_db) \<and>
   \<not> spec_publicly_visible request_time blog_db draft_post \<and>
   \<not> is_author (p_author draft_post) (req_user (get_request (Some bob))) \<and>
   PostDetailView request_time blog_db (get_request (Some bob)) 2 = HttpResponseNotFound \<and>
   PostDetailView request_time blog_db (get_request None) 2 =
     HttpResponseRedirect (LoginUrl (PostDetailUrl 2))"
  using detail_hidden_post_not_author
    [of blog_db draft_post request_time "get_request (Some bob)"]
    detail_hidden_post_not_author
    [of blog_db draft_post request_time "get_request None"]
    wf_blog_db
  by (simp add: spec_publicly_visible_def is_author_def sample_defs)

text \<open>
  C3. The author of a post who fetches its detail route gets the post with its comments,
  whatever the post's \<^verbatim>\<open>is_published\<close>, its \<^verbatim>\<open>pub_date\<close> and the published state
  of its category are: none of them occurs in the hypotheses.
\<close>

theorem detail_author_sees_own_post:
  assumes "wf_db d" and "P \<in> set (posts d)" and "req_user r = Some U"
    and "u_id U = p_author P" and "req_method r = GET"
  shows "PostDetailView now d r (p_id P) =
     TemplateResponse ''blog/detail.html''
       (DetailContext P (filter (\<lambda>c. cm_post c = p_id P) (comments d)))"
proof -
  from assms(1) have dist: "distinct (map p_id (posts d))" by (simp add: wf_db_def)
  have first: "get_object_or_404 (posts d) (\<lambda>p. p_id p = p_id P) = Inr P"
    using dist assms(2) by (rule get_object_or_404_unique)
  have "PostDetailView_get_object now d r (p_id P) = Inr P"
    using assms(3,4) by (simp add: PostDetailView_get_object_def first is_author_def)
  with assms(3,5) show ?thesis by (simp add: PostDetailView_def)
qed

theorem detail_author_sees_own_post_witness:
  "wf_db blog_db \<and> draft_post \<in> set (posts blog_db) \<and> u_id alice = p_author draft_post \<and>
   \<not> p_is_published draft_post \<and> request_time < p_pub_date draft_post \<and>
   PostDetailView request_time blog_db (get_request (Some alice)) 2 =
     TemplateResponse ''blog/detail.html'' (DetailContext draft_post [])"
  using detail_author_sees_own_post
    [of blog_db draft_post "get_request (Some alice)" alice request_time] wf_blog_db
  by (simp add: sample_defs)

section \<open>The ownership guard of the post routes\<close>

text \<open>
  C4. An authenticated user who is not the author of a post and requests its edit or delete
  route, with any method and any data, is redirected to the detail view of that post, and
  the store is left as it was.
\<close>

theorem edit_delete_by_non_author:
  assumes "wf_db d" and "P \<in> set (posts d)" and "req_user r = Some A"
    and "u_id A \<noteq> p_author P"
  shows "PostEditView m d r (p_id P) = (HttpResponseRedirect (PostDetailUrl (p_id P)), d) \<and>
         PostDeleteView m d r (p_id P) = (HttpResponseRedirect (PostDetailUrl (p_id P)), d)"
proof -
  from assms(1) have dist: "distinct (map p_id (posts d))" by (simp add: wf_db_def)
  have first: "get_object_or_404 (posts d) (\<lambda>p. p_id p = p_id P) = Inr P"
    using dist assms(2) by (rule get_object_or_404_unique)
  from assms(3,4) have "\<not> is_author (p_author P) (req_user r)" by (simp add: is_author_def)
  then show ?thesis by (simp add: PostEditView_def PostDeleteView_def first)
qed

theorem edit_delete_by_non_author_witness:
  "wf_db blog_db \<and> today_post \<in> set (posts blog_db) \<and> u_id bob \<noteq> p_author today_post \<and>
   PostEditView sample_models blog_db
       (post_request (Some bob) [''title'' \<mapsto> ''Changed'']) 1 =
     (HttpResponseRedirect (PostDetailUrl 1), blog_db) \<and>
   PostDeleteView sample_models blog_db
       (post_request (Some bob) [''title'' \<mapsto> ''Changed'']) 1 =
     (HttpResponseRedirect (PostDetailUrl 1), blog_db)"
  using edit_delete_by_non_author
    [of blog_db today_post "post_request (Some bob) [''title'' \<mapsto> ''Changed'']" bob
        sample_models] wf_blog_db
  by (simp add: sample_defs)

section \<open>Authorship of a new post\<close>

text \<open>
  C5. For a create request of an authenticated principal: changing, adding or removing the
  \<^verbatim>\<open>author\<close> entry of the submitted data changes neither the response nor the store;
  every post the request adds to the store has the principal as its author; and a
  \<^verbatim>\<open>POST\<close> with a valid form adds exactly one post, under a new id, whose author is the
  principal.
\<close>

theorem create_post_author_is_principal:
  assumes "req_user r = Some U"
  shows "PostCreateView m d (r\<lparr>req_POST := (req_POST r)(''author'' := a)\<rparr>) =
           PostCreateView m d r \<and>
         (\<forall>p \<in> set (posts (snd (PostCreateView m d r))) - set (posts d).
            p_author p = u_id U) \<and>
         (\<forall>v. req_method r = POST \<and> PostForm m d (req_POST r) = Some v \<longrightarrow>
            (\<exists>obj. posts (snd (PostCreateView m d r)) = posts d @ [obj] \<and>
                   p_author obj = u_id U \<and> p_id obj \<notin> set (map p_id (posts d))))"
proof (intro conjI allI impI)
  show "PostCreateView m d (r\<lparr>req_POST := (req_POST r)(''author'' := a)\<rparr>) =
          PostCreateView m d r"
    using assms
    by (cases "req_method r") (simp_all add: PostCreateView_def PostForm_ignores_author)
next
  show "\<forall>p \<in> set (posts (snd (PostCreateView m d r))) - set (posts d). p_author p = u_id U"
    using assms
    by (auto simp: PostCreateView_def Let_def split: http_method.splits option.splits sum.splits)
next
  fix v assume h: "req_method r = POST \<and> PostForm m d (req_POST r) = Some v"
  let ?obj = "\<lparr>p_id = next_id (map p_id (posts d)), p_title = v_title v,
                p_text = v_text v, p_pub_date = v_pub_date v,
                p_is_published = v_is_published v, p_author = u_id U,
                p_category = v_category v, p_location = v_location v\<rparr>"
  have "posts (snd (PostCreateView m d r)) = posts d @ [?obj]"
    using assms h by (simp add: PostCreateView_def Let_def split: sum.splits)
  moreover have "p_id ?obj \<notin> set (map p_id (posts d))"
    using next_id_fresh [of "map p_id (posts d)"] by simp
  ultimately show "\<exists>obj. posts (snd (PostCreateView m d r)) = posts d @ [obj] \<and>
      p_author obj = u_id U \<and> p_id obj \<notin> set (map p_id (posts d))"
    by (intro exI [of _ ?obj]) simp
qed

theorem create_post_author_is_principal_witness:
  "req_user (post_request (Some alice) [''title'' \<mapsto> ''New'']) = Some alice \<and>
   PostCreateView sample_models blog_db
       (post_request (Some alice) [''title'' \<mapsto> ''New'', ''author'' \<mapsto> ''2'']) =
     PostCreateView sample_models blog_db (post_request (Some alice) [''title'' \<mapsto> ''New'']) \<and>
   (\<exists>obj. posts (snd (PostCreateView sample_models blog_db
                (post_request (Some alice) [''title'' \<mapsto> ''New'']))) =
            posts blog_db @ [obj] \<and> p_author obj = u_id alice)"
proof -
  let ?r = "post_request (Some alice) [''title'' \<mapsto> ''New'']"
  have user: "req_user ?r = Some alice" by (simp add: post_request_def)
  have form: "PostForm sample_models blog_db (req_POST ?r) =
      Some \<lparr>v_title = ''New'', v_text = ''by the requester'', v_pub_date = 864000,
            v_is_published = True, v_category = 1, v_location = None\<rparr>"
    by (simp add: PostForm_def PostForm_fields_def PostForm_exclude_def Post_fields_def
        post_request_def sample_models_def restrict_map_def)
  have upd: "?r\<lparr>req_POST := (req_POST ?r)(''author'' := Some ''2'')\<rparr> =
      post_request (Some alice) [''title'' \<mapsto> ''New'', ''author'' \<mapsto> ''2'']"
    by (simp add: post_request_def)
  note inst = create_post_author_is_principal [OF user, of sample_models blog_db "Some ''2''"]
  from inst have same: "PostCreateView sample_models blog_db
       (post_request (Some alice) [''title'' \<mapsto> ''New'', ''author'' \<mapsto> ''2'']) =
     PostCreateView sample_models blog_db ?r"
    by (simp only: upd)
  from inst form have "\<exists>obj. posts (snd (PostCreateView sample_models blog_db ?r)) =
      posts blog_db @ [obj] \<and> p_author obj = u_id alice"
    by (auto simp: post_request_def)
  with user same show ?thesis by simp
qed

section \<open>The profile listing\<close>





section \<open>Creating a comment\<close>

text \<open>
  C7. An authenticated user who posts a valid comment form to the comment route of an
  existing post adds exactly one row to the comments table, under a new id, with the user
  as author and that post as its post, and is redirected to the detail view of the post.
\<close>

theorem create_comment_adds_one_row:
  assumes "wf_db d" and "P \<in> set (posts d)" and "req_user r = Some U"
    and "req_method r = POST" and "CommentForm m (req_POST r) = Some text"
  shows "\<exists>c. CreateCommentView m now d r (p_id P) =
               (HttpResponseRedirect (PostDetailUrl (p_id P)),
                d\<lparr>comments := comments d @ [c]\<rparr>) \<and>
             cm_author c = u_id U \<and> cm_post c = p_id P \<and> cm_text c = text \<and>
             cm_id c \<notin> set (map cm_id (comments d))"
proof -
  from assms(1) have dist: "distinct (map p_id (posts d))" by (simp add: wf_db_def)
  have first: "get_object_or_404 (posts d) (\<lambda>p. p_id p = p_id P) = Inr P"
    using dist assms(2) by (rule get_object_or_404_unique)
  let ?c = "\<lparr>cm_id = next_id (map cm_id (comments d)), cm_text = text,
              cm_author = u_id U, cm_post = p_id P, cm_created_at = now\<rparr>"
  have "CreateCommentView m now d r (p_id P) =
      (HttpResponseRedirect (PostDetailUrl (p_id P)), d\<lparr>comments := comments d @ [?c]\<rparr>)"
    using assms(3,4,5) by (simp add: CreateCommentView_def first)
  moreover have "cm_id ?c \<notin> set (map cm_id (comments d))"
    using next_id_fresh [of "map cm_id (comments d)"] by simp
  ultimately show ?thesis by (intro exI [of _ ?c]) simp
qed

theorem create_comment_adds_one_row_witness:
  "wf_db blog_db \<and> today_post \<in> set (posts blog_db) \<and>
   CommentForm sample_models (req_POST (post_request (Some bob) [''text'' \<mapsto> ''hello''])) =
     Some ''hello'' \<and>
   (\<exists>c. CreateCommentView sample_models request_time blog_db
           (post_request (Some bob) [''text'' \<mapsto> ''hello'']) 1 =
         (HttpResponseRedirect (PostDetailUrl 1),
          blog_db\<lparr>comments := [bobs_comment, c]\<rparr>) \<and>
        cm_author c = 2 \<and> cm_post c = 1 \<and> cm_text c = ''hello'' \<and> cm_id c \<noteq> 7)"
proof -
  let ?r = "post_request (Some bob) [''text'' \<mapsto> ''hello'']"
  have form: "CommentForm sample_models (req_POST ?r) = Some ''hello''"
    by (simp add: CommentForm_def CommentForm_fields_def post_request_def sample_models_def
        restrict_map_def)
  have post: "today_post \<in> set (posts blog_db)" by (simp add: blog_db_def)
  have user: "req_user ?r = Some bob" and meth: "req_method ?r = POST"
    by (simp_all add: post_request_def)
  from create_comment_adds_one_row [OF wf_blog_db post user meth form, of request_time]
  obtain c where c: "CreateCommentView sample_models request_time blog_db ?r (p_id today_post) =
      (HttpResponseRedirect (PostDetailUrl (p_id today_post)),
       blog_db\<lparr>comments := comments blog_db @ [c]\<rparr>)"
     "cm_author c = u_id bob" "cm_post c = p_id today_post" "cm_text c = ''hello''"
     "cm_id c \<notin> set (map cm_id (comments blog_db))"
    by blast
  have ids: "p_id today_post = 1" "u_id bob = 2" "comments blog_db = [bobs_comment]"
    "cm_id bobs_comment = 7"
    by (simp_all add: sample_defs)
  from c have "CreateCommentView sample_models request_time blog_db ?r 1 =
         (HttpResponseRedirect (PostDetailUrl 1), blog_db\<lparr>comments := [bobs_comment, c]\<rparr>) \<and>
        cm_author c = 2 \<and> cm_post c = 1 \<and> cm_text c = ''hello'' \<and> cm_id c \<noteq> 7"
    by (simp add: ids)
  then have "\<exists>c. CreateCommentView sample_models request_time blog_db ?r 1 =
         (HttpResponseRedirect (PostDetailUrl 1), blog_db\<lparr>comments := [bobs_comment, c]\<rparr>) \<and>
        cm_author c = 2 \<and> cm_post c = 1 \<and> cm_text c = ''hello'' \<and> cm_id c \<noteq> 7"
    by (rule exI)
  with wf_blog_db post form show ?thesis by simp
qed

section \<open>Editing and deleting a comment\<close>

text \<open>
  C8. Every redirect that the comment edit and delete routes answer with goes to the post
  detail URL built from \<^verbatim>\<open>comment_id\<close>: the redirect of a failed ownership check, and
  the redirect after a successful edit or delete.
\<close>

theorem comment_redirects_use_comment_id:
  "(\<forall>u. fst (CommentEditView m d r post_id comment_id) = HttpResponseRedirect u \<longrightarrow>
        u = PostDetailUrl comment_id) \<and>
   (\<forall>u. fst (CommentDeleteView d r post_id comment_id) = HttpResponseRedirect u \<longrightarrow>
        u = PostDetailUrl comment_id) \<and>
   (\<forall>c. distinct (map cm_id (comments d)) \<and> c \<in> set (comments d) \<and> cm_id c = comment_id \<longrightarrow>
      (\<not> is_author (cm_author c) (req_user r) \<longrightarrow>
         CommentEditView m d r post_id comment_id =
           (HttpResponseRedirect (PostDetailUrl comment_id), d) \<and>
         CommentDeleteView d r post_id comment_id =
           (HttpResponseRedirect (PostDetailUrl comment_id), d)) \<and>
      (is_author (cm_author c) (req_user r) \<and> req_method r = POST \<longrightarrow>
         fst (CommentDeleteView d r post_id comment_id) =
           HttpResponseRedirect (PostDetailUrl comment_id) \<and>
         (CommentForm m (req_POST r) \<noteq> None \<longrightarrow>
            fst (CommentEditView m d r post_id comment_id) =
              HttpResponseRedirect (PostDetailUrl comment_id))))"
proof (intro conjI allI impI)
  fix u assume "fst (CommentEditView m d r post_id comment_id) = HttpResponseRedirect u"
  then show "u = PostDetailUrl comment_id"
    by (auto simp: CommentEditView_def error_response_def
        split: sum.splits if_splits http_method.splits option.splits)
next
  fix u assume "fst (CommentDeleteView d r post_id comment_id) = HttpResponseRedirect u"
  then show "u = PostDetailUrl comment_id"
    by (auto simp: CommentDeleteView_def error_response_def
        split: sum.splits if_splits http_method.splits)
next
  fix c
  assume h: "distinct (map cm_id (comments d)) \<and> c \<in> set (comments d) \<and> cm_id c = comment_id"
    and n: "\<not> is_author (cm_author c) (req_user r)"
  from h have "get_object_or_404 (comments d) (\<lambda>y. cm_id y = comment_id) = Inr c"
    using get_object_or_404_unique [of cm_id "comments d" c] by auto
  with h n show "CommentEditView m d r post_id comment_id =
      (HttpResponseRedirect (PostDetailUrl comment_id), d)"
    by (auto simp: CommentEditView_def)
next
  fix c
  assume h: "distinct (map cm_id (comments d)) \<and> c \<in> set (comments d) \<and> cm_id c = comment_id"
    and n: "\<not> is_author (cm_author c) (req_user r)"
  from h have "get_object_or_404 (comments d) (\<lambda>y. cm_id y = comment_id) = Inr c"
    using get_object_or_404_unique [of cm_id "comments d" c] by auto
  with h n show "CommentDeleteView d r post_id comment_id =
      (HttpResponseRedirect (PostDetailUrl comment_id), d)"
    by (auto simp: CommentDeleteView_def)
next
  fix c
  assume h: "distinct (map cm_id (comments d)) \<and> c \<in> set (comments d) \<and> cm_id c = comment_id"
    and a: "is_author (cm_author c) (req_user r) \<and> req_method r = POST"
  from h have "get_object_or_404 (comments d) (\<lambda>y. cm_id y = comment_id) = Inr c"
    using get_object_or_404_unique [of cm_id "comments d" c] by auto
  with h a show "fst (CommentDeleteView d r post_id comment_id) =
      HttpResponseRedirect (PostDetailUrl comment_id)"
    by (auto simp: CommentDeleteView_def)
next
  fix c
  assume h: "distinct (map cm_id (comments d)) \<and> c \<in> set (comments d) \<and> cm_id c = comment_id"
    and a: "is_author (cm_author c) (req_user r) \<and> req_method r = POST"
    and v: "CommentForm m (req_POST r) \<noteq> None"
  from h have "get_object_or_404 (comments d) (\<lambda>y. cm_id y = comment_id) = Inr c"
    using get_object_or_404_unique [of cm_id "comments d" c] by auto
  with h a v show "fst (CommentEditView m d r post_id comment_id) =
      HttpResponseRedirect (PostDetailUrl comment_id)"
    by (auto simp: CommentEditView_def)
qed

theorem comment_redirects_use_comment_id_witness:
  "bobs_comment \<in> set (comments blog_db) \<and> cm_id bobs_comment = 7 \<and>
   cm_post bobs_comment = 1 \<and>
   CommentEditView sample_models blog_db
       (post_request (Some alice) [''text'' \<mapsto> ''edited'']) 1 7 =
     (HttpResponseRedirect (PostDetailUrl 7), blog_db) \<and>
   CommentDeleteView blog_db (post_request (Some alice) [''text'' \<mapsto> ''edited'']) 1 7 =
     (HttpResponseRedirect (PostDetailUrl 7), blog_db) \<and>
   fst (CommentEditView sample_models blog_db
          (post_request (Some bob) [''text'' \<mapsto> ''edited'']) 1 7) =
     HttpResponseRedirect (PostDetailUrl 7) \<and>
   fst (CommentDeleteView blog_db (post_request (Some bob) [''text'' \<mapsto> ''edited'']) 1 7) =
     HttpResponseRedirect (PostDetailUrl 7)"
proof -
  let ?ra = "post_request (Some alice) [''text'' \<mapsto> ''edited'']"
  let ?rb = "post_request (Some bob) [''text'' \<mapsto> ''edited'']"
  have row: "distinct (map cm_id (comments blog_db)) \<and> bobs_comment \<in> set (comments blog_db) \<and>
      cm_id bobs_comment = 7"
    by (simp add: sample_defs)
  have other: "\<not> is_author (cm_author bobs_comment) (req_user ?ra)"
    by (simp add: is_author_def sample_defs)
  have owner: "is_author (cm_author bobs_comment) (req_user ?rb) \<and> req_method ?rb = POST"
    by (simp add: is_author_def sample_defs)
  have valid: "CommentForm sample_models (req_POST ?rb) \<noteq> None"
    by (simp add: CommentForm_def CommentForm_fields_def post_request_def sample_models_def
        restrict_map_def)
  note a = comment_redirects_use_comment_id [of sample_models blog_db ?ra 1 7,
      THEN conjunct2, THEN conjunct2, THEN spec [where x = bobs_comment], THEN mp, OF row,
      THEN conjunct1, THEN mp, OF other]
  note b = comment_redirects_use_comment_id [of sample_models blog_db ?rb 1 7,
      THEN conjunct2, THEN conjunct2, THEN spec [where x = bobs_comment], THEN mp, OF row,
      THEN conjunct2, THEN mp, OF owner]
  note b_edit = b [THEN conjunct2, THEN mp, OF valid]
  have "cm_post bobs_comment = 1" by (simp add: bobs_comment_def)
  with row a b b_edit show ?thesis by simp
qed

text \<open>
  C9. The claim: on every mutating route an anonymous request is redirected to the login
  entry point with a return path, and nothing is created, modified or deleted. On the
  sample blog, an anonymous \<^verbatim>\<open>POST\<close> to the edit or delete route of an existing post, or
  of an existing comment, is redirected to a post detail URL instead: the ownership check
  of these views runs before any login check. The create routes and the profile form do
  redirect to the login entry point.
\<close>

theorem anonymous_edit_is_sent_to_post_detail:
  "PostEditView sample_models blog_db (post_request None [''title'' \<mapsto> ''Changed'']) 1 =
     (HttpResponseRedirect (PostDetailUrl 1), blog_db) \<and>
   PostDeleteView sample_models blog_db (post_request None [''title'' \<mapsto> ''Changed'']) 1 =
     (HttpResponseRedirect (PostDetailUrl 1), blog_db) \<and>
   CommentEditView sample_models blog_db (post_request None [''title'' \<mapsto> ''Changed'']) 1 7 =
     (HttpResponseRedirect (PostDetailUrl 7), blog_db) \<and>
   CommentDeleteView blog_db (post_request None [''title'' \<mapsto> ''Changed'']) 1 7 =
     (HttpResponseRedirect (PostDetailUrl 7), blog_db) \<and>
   PostCreateView sample_models blog_db (post_request None [''title'' \<mapsto> ''Changed'']) =
     (HttpResponseRedirect (LoginUrl CreatePostUrl), blog_db) \<and>
   CreateCommentView sample_models request_time blog_db (post_request None [''title'' \<mapsto> ''Changed'']) 1 =
     (HttpResponseRedirect (LoginUrl (AddCommentUrl 1)), blog_db) \<and>
   ProfileEditView sample_models blog_db (post_request None [''title'' \<mapsto> ''Changed'']) =
     (HttpResponseRedirect (LoginUrl EditProfileUrl), blog_db)"
proof (intro conjI)
  have post1: "get_object_or_404 (posts blog_db) (\<lambda>p. p_id p = 1) = Inr today_post"
    by (simp add: get_object_or_404_def sample_defs)
  have comment7: "get_object_or_404 (comments blog_db) (\<lambda>c. cm_id c = 7) = Inr bobs_comment"
    by (simp add: get_object_or_404_def sample_defs)
  have anon: "req_user (post_request None [''title'' \<mapsto> ''Changed'']) = None"
    by (simp add: post_request_def)
  show "PostEditView sample_models blog_db (post_request None [''title'' \<mapsto> ''Changed'']) 1 =
     (HttpResponseRedirect (PostDetailUrl 1), blog_db)"
    using post1 anon by (simp add: PostEditView_def is_author_def)
  show "PostDeleteView sample_models blog_db (post_request None [''title'' \<mapsto> ''Changed'']) 1 =
     (HttpResponseRedirect (PostDetailUrl 1), blog_db)"
    using post1 anon by (simp add: PostDeleteView_def is_author_def)
  show "CommentEditView sample_models blog_db (post_request None [''title'' \<mapsto> ''Changed'']) 1 7 =
     (HttpResponseRedirect (PostDetailUrl 7), blog_db)"
    using comment7 anon by (simp add: CommentEditView_def is_author_def)
  show "CommentDeleteView blog_db (post_request None [''title'' \<mapsto> ''Changed'']) 1 7 =
     (HttpResponseRedirect (PostDetailUrl 7), blog_db)"
    using comment7 anon by (simp add: CommentDeleteView_def is_author_def)
  show "PostCreateView sample_models blog_db (post_request None [''title'' \<mapsto> ''Changed'']) =
     (HttpResponseRedirect (LoginUrl CreatePostUrl), blog_db)"
    by (simp add: PostCreateView_def anon redirect_to_login_def)
  show "CreateCommentView sample_models request_time blog_db (post_request None [''title'' \<mapsto> ''Changed'']) 1 =
     (HttpResponseRedirect (LoginUrl (AddCommentUrl 1)), blog_db)"
    using post1 anon by (simp add: CreateCommentView_def redirect_to_login_def)
  show "ProfileEditView sample_models blog_db (post_request None [''title'' \<mapsto> ''Changed'']) =
     (HttpResponseRedirect (LoginUrl EditProfileUrl), blog_db)"
    by (simp add: ProfileEditView_def anon redirect_to_login_def)
qed

text \<open>
  The second half of that claim holds on every mutating route: an anonymous request leaves
  the store as it was.
\<close>

lemma anonymous_changes_nothing:
  assumes "req_user r = None"
  shows "snd (PostCreateView m d r) = d \<and>
         snd (PostEditView m d r post_id) = d \<and>
         snd (PostDeleteView m d r post_id) = d \<and>
         snd (CreateCommentView m now d r post_id) = d \<and>
         snd (CommentEditView m d r post_id comment_id) = d \<and>
         snd (CommentDeleteView d r post_id comment_id) = d \<and>
         snd (ProfileEditView m d r) = d"
proof (intro conjI)
  show "snd (PostCreateView m d r) = d"
    using assms by (simp add: PostCreateView_def)
  show "snd (ProfileEditView m d r) = d"
    using assms by (simp add: ProfileEditView_def)
  show "snd (PostEditView m d r post_id) = d"
    using anonymous_is_no_author [OF assms]
    by (cases "get_object_or_404 (posts d) (\<lambda>p. p_id p = post_id)")
      (simp_all add: PostEditView_def)
  show "snd (PostDeleteView m d r post_id) = d"
    using anonymous_is_no_author [OF assms]
    by (cases "get_object_or_404 (posts d) (\<lambda>p. p_id p = post_id)")
      (simp_all add: PostDeleteView_def)
  show "snd (CreateCommentView m now d r post_id) = d"
    using assms
    by (cases "get_object_or_404 (posts d) (\<lambda>p. p_id p = post_id)")
      (simp_all add: CreateCommentView_def)
  show "snd (CommentEditView m d r post_id comment_id) = d"
    using anonymous_is_no_author [OF assms]
    by (cases "get_object_or_404 (comments d) (\<lambda>c. cm_id c = comment_id)")
      (simp_all add: CommentEditView_def)
  show "snd (CommentDeleteView d r post_id comment_id) = d"
    using anonymous_is_no_author [OF assms]
    by (cases "get_object_or_404 (comments d) (\<lambda>c. cm_id c = comment_id)")
      (simp_all add: CommentDeleteView_def)
qed

text \<open>
  C10. The comment edit and delete routes do not read \<^verbatim>\<open>post_id\<close>: two requests
  that differ in it alone get the same response and leave the same store.
\<close>

theorem comment_views_ignore_post_id:
  "CommentEditView m d r post_id comment_id = CommentEditView m d r post_id' comment_id \<and>
   CommentDeleteView d r post_id comment_id = CommentDeleteView d r post_id' comment_id"
proof
  show "CommentEditView m d r post_id comment_id = CommentEditView m d r post_id' comment_id"
    unfolding CommentEditView_def ..
  show "CommentDeleteView d r post_id comment_id = CommentDeleteView d r post_id' comment_id"
    unfolding CommentDeleteView_def ..
qed

end
